theory Spec2Isabelle
  imports
    Complex_Main
    "HOL-Library.List_Lexorder"
    "HOL-Library.AList"
    "HOL-Library.Sublist"
begin

section \<open>Python strings\<close>

text \<open>
  A Python \<open>str\<close> is a sequence of Unicode code points.  Lengths, regular expressions and
  comparisons all work on code points, so a string is modelled as a list of code points
  (natural numbers), ordered lexicographically as Python orders strings.  Literals are
  written \<open>str ''...''\<close>.
\<close>

type_synonym pystr = "nat list"

definition str :: "string \<Rightarrow> pystr" where
  "str s = map of_char s"

text \<open>
  Whitespace as \<open>str.strip()\<close> and the regular expression class \<open>\s\<close> see it (both use
  the interpreter's \<open>Py_UNICODE_ISSPACE\<close>): TAB, LF, VT, FF, CR, the separators
  U+001C..U+001F, SPACE, NEL, NBSP and the Unicode space separators.
\<close>

definition is_space :: "nat \<Rightarrow> bool" where
  "is_space c =
     ((9 \<le> c \<and> c \<le> 13) \<or> (28 \<le> c \<and> c \<le> 32) \<or> c = 133 \<or> c = 160 \<or> c = 5760 \<or>
      (8192 \<le> c \<and> c \<le> 8202) \<or> c = 8232 \<or> c = 8233 \<or> c = 8239 \<or> c = 8287 \<or> c = 12288)"

text \<open>\<open>s.strip()\<close> and \<open>s.strip(chars)\<close>: drop the characters of a class from both ends.\<close>

definition lstrip :: "(nat \<Rightarrow> bool) \<Rightarrow> pystr \<Rightarrow> pystr" where
  "lstrip P s = dropWhile P s"

definition rstrip :: "(nat \<Rightarrow> bool) \<Rightarrow> pystr \<Rightarrow> pystr" where
  "rstrip P s = rev (dropWhile P (rev s))"

definition strip :: "(nat \<Rightarrow> bool) \<Rightarrow> pystr \<Rightarrow> pystr" where
  "strip P s = rstrip P (lstrip P s)"

section \<open>The path sanitizer: \<open>slugify_filename\<close>\<close>

text \<open>The fallback name \<open>"unnamed-product"\<close>.\<close>

definition unnamed_product :: pystr where
  "unnamed_product = str ''unnamed-product''"

text \<open>The hyphen \<open>-\<close> (45), the underscore \<open>_\<close> (95) and the dot \<open>.\<close> (46).\<close>

definition hyphen :: nat where
  "hyphen = 45"

text \<open>
  \<open>re.sub(r"\s+", "-", name)\<close>: every maximal run of whitespace becomes one hyphen.
\<close>

function sub_whitespace :: "pystr \<Rightarrow> pystr" where
  "sub_whitespace [] = []"
| "sub_whitespace (c # cs) =
     (if is_space c then hyphen # sub_whitespace (dropWhile is_space cs)
      else c # sub_whitespace cs)"
  by pat_completeness auto
termination
  by (relation "measure length") (auto simp: length_dropWhile_le less_Suc_eq_le)

text \<open>
  The class \<open>[<>:"/\\|?*\x00-\x1F]\<close> of the second substitution: the characters
  \<open>< > : " / \ | ? *\<close> and the code points 0 to 31.
\<close>

definition is_reserved :: "nat \<Rightarrow> bool" where
  "is_reserved c = (c \<in> set [60, 62, 58, 34, 47, 92, 124, 63, 42])"

definition is_control :: "nat \<Rightarrow> bool" where
  "is_control c = (c \<le> 31)"

definition is_illegal :: "nat \<Rightarrow> bool" where
  "is_illegal c = (is_reserved c \<or> is_control c)"

definition remove_illegal :: "pystr \<Rightarrow> pystr" where
  "remove_illegal s = filter (\<lambda>c. \<not> is_illegal c) s"

text \<open>
  \<open>re.sub(r"[-_]{2,}", "-", name)\<close>: every maximal run of two or more hyphens and
  underscores becomes one hyphen; a single separator stays as it is.
\<close>

definition is_sep :: "nat \<Rightarrow> bool" where
  "is_sep c = (c = 45 \<or> c = 95)"

function sub_separators :: "pystr \<Rightarrow> pystr" where
  "sub_separators [] = []"
| "sub_separators [c] = [c]"
| "sub_separators (c # d # cs) =
     (if is_sep c \<and> is_sep d then hyphen # sub_separators (dropWhile is_sep cs)
      else c # sub_separators (d # cs))"
  by pat_completeness auto
termination
  by (relation "measure length") (auto simp: length_dropWhile_le less_Suc_eq_le le_SucI)

text \<open>The characters of \<open>.strip("-_.")\<close>.\<close>

definition is_trim :: "nat \<Rightarrow> bool" where
  "is_trim c = (c = 45 \<or> c = 95 \<or> c = 46)"

definition slugify_filename :: "pystr \<Rightarrow> pystr" where
  "slugify_filename name =
     (let name1 = strip is_space name in
      if name1 = [] then unnamed_product
      else
        let name2 = sub_whitespace name1;
            name3 = remove_illegal name2;
            name4 = strip is_trim (sub_separators name3)
        in if name4 = [] then unnamed_product else name4)"


text \<open>
  Two predicates used to state what the sanitizer's result looks like: \<open>sep_run s\<close> holds
  when \<open>s\<close> has two adjacent separators (a match of \<open>[-_]{2,}\<close>), and \<open>clean s\<close> when
  none of the sanitizer's steps has anything left to do on \<open>s\<close>.
\<close>

fun sep_run :: "pystr \<Rightarrow> bool" where
  "sep_run (c # d # cs) = ((is_sep c \<and> is_sep d) \<or> sep_run (d # cs))"
| "sep_run _ = False"

definition clean :: "pystr \<Rightarrow> bool" where
  "clean s = (s \<noteq> [] \<and> (\<forall>c\<in>set s. \<not> is_space c \<and> \<not> is_illegal c) \<and> \<not> sep_run s \<and>
     \<not> is_trim (hd s) \<and> \<not> is_trim (last s))"


section \<open>Errors\<close>

text \<open>
  Every exception the modelled code can raise is a value.  \<open>SystemExit\<close> carries the
  message the command-line tool exits with; the others are the exceptions of the Python
  runtime and its libraries, which the code lets propagate.
\<close>

type_synonym path = "pystr list"

datatype error =
    SystemExit pystr
  | JSONDecodeError
  | TypeError
  | KeyError pystr
  | FileExistsError path
  | NotADirectoryError path
  | IsADirectoryError path
  | FileNotFoundError path

section \<open>JSON values and the metadata document\<close>

text \<open>
  What \<open>json.loads\<close> can return.  A Python \<open>dict\<close> keeps its keys in insertion order,
  and so does the association list of \<open>JObj\<close>: \<open>AList.update\<close> replaces the value of a
  key in place and puts a new key last, \<open>map_of\<close> is the lookup.
\<close>

datatype json =
    JNull
  | JBool bool
  | JInt int
  | JFloat real
  | JStr pystr
  | JArr "json list"
  | JObj "(pystr \<times> json) list"

text \<open>
  The type the \<open>Store\<close> dataclass declares for its \<open>data\<close>:
  \<open>Dict[str, Dict[str, List[str]]]\<close>, country to primary category to the list of
  secondary categories.
\<close>

type_synonym cat1s = "(pystr \<times> pystr list) list"

type_synonym doc = "(pystr \<times> cat1s) list"

text \<open>A document as a JSON value, and the JSON values that are documents.\<close>

definition json_of_cat1s :: "cat1s \<Rightarrow> json" where
  "json_of_cat1s m = JObj (map (\<lambda>(k, l). (k, JArr (map JStr l))) m)"

definition json_of_doc :: "doc \<Rightarrow> json" where
  "json_of_doc d = JObj (map (\<lambda>(c, m). (c, json_of_cat1s m)) d)"

fun strs_of_json :: "json list \<Rightarrow> pystr list option" where
  "strs_of_json [] = Some []"
| "strs_of_json (JStr s # js) = map_option ((#) s) (strs_of_json js)"
| "strs_of_json (_ # js) = None"

fun cat1s_of_json :: "(pystr \<times> json) list \<Rightarrow> cat1s option" where
  "cat1s_of_json [] = Some []"
| "cat1s_of_json ((k, JArr js) # kvs) =
     (case strs_of_json js of
        None \<Rightarrow> None
      | Some l \<Rightarrow> map_option ((#) (k, l)) (cat1s_of_json kvs))"
| "cat1s_of_json (_ # kvs) = None"

fun countries_of_json :: "(pystr \<times> json) list \<Rightarrow> doc option" where
  "countries_of_json [] = Some []"
| "countries_of_json ((c, JObj kvs) # rest) =
     (case cat1s_of_json kvs of
        None \<Rightarrow> None
      | Some m \<Rightarrow> map_option ((#) (c, m)) (countries_of_json rest))"
| "countries_of_json (_ # rest) = None"

fun doc_of_json :: "json \<Rightarrow> doc option" where
  "doc_of_json (JObj kvs) = countries_of_json kvs"
| "doc_of_json _ = None"

section \<open>The filesystem\<close>

text \<open>
  A path is the list of its components, and \<open>p / c\<close> appends one component.  The
  taxonomy keys are joined into paths as they are, so the model is of keys that are
  single path components.

  A file holds text.  The metadata file is only ever read through \<open>json.loads\<close> and
  written through \<open>json.dumps\<close>, so its text is kept up to that pair: \<open>JsonText j\<close>
  is a text that \<open>json.loads\<close> parses to \<open>j\<close> (what \<open>json.dumps\<close> writes for \<open>j\<close>),
  and \<open>Text t\<close> is the text \<open>t\<close> read as it is, on which \<open>json.loads\<close> raises.
\<close>

datatype content = JsonText json | Text pystr

datatype node = Dir | File content

type_synonym fs = "path \<Rightarrow> node option"

definition path_exists :: "fs \<Rightarrow> path \<Rightarrow> bool" where
  "path_exists fs p = (fs p \<noteq> None)"

text \<open>
  The empty path (the directory the paths start from) is a directory.
\<close>

definition is_dir :: "fs \<Rightarrow> path \<Rightarrow> bool" where
  "is_dir fs p = (p = [] \<or> fs p = Some Dir)"

text \<open>
  \<open>p.mkdir(parents=True, exist_ok=True)\<close>, as \<open>pathlib\<close> runs it.  \<open>os.mkdir(p)\<close>
  makes the directory when \<open>p\<close> does not exist and its parent is a directory.  When
  \<open>p\<close> exists, a directory is left alone (\<open>exist_ok\<close>) and a regular file raises
  \<open>FileExistsError\<close>.  When the parent is a regular file, \<open>NotADirectoryError\<close> is
  raised.  When the parent is missing, the parent is made first, in the same way, and
  then \<open>p\<close>.  The recursion goes up the path, so it runs on the reversed list of
  components.  An exception leaves nothing behind: it is raised before any directory
  is made.
\<close>

fun mkdir_parents :: "fs \<Rightarrow> pystr list \<Rightarrow> error + fs" where
  "mkdir_parents fs [] = Inr fs"
| "mkdir_parents fs (c # rparent) =
     (case fs (rev (c # rparent)) of
        Some Dir \<Rightarrow> Inr fs
      | Some (File x) \<Rightarrow> Inl (FileExistsError (rev (c # rparent)))
      | None \<Rightarrow>
          if is_dir fs (rev rparent) then Inr (fs(rev (c # rparent) \<mapsto> Dir))
          else if path_exists fs (rev rparent) then Inl (NotADirectoryError (rev (c # rparent)))
          else
            (case mkdir_parents fs rparent of
               Inl e \<Rightarrow> Inl e
             | Inr fs' \<Rightarrow> Inr (fs'(rev (c # rparent) \<mapsto> Dir))))"

definition ensure_dir :: "fs \<Rightarrow> path \<Rightarrow> error + fs" where
  "ensure_dir fs p = mkdir_parents fs (rev p)"

text \<open>
  \<open>p.write_text(text)\<close> opens \<open>p\<close> for writing: a directory at \<open>p\<close> and a parent that
  is missing or a regular file raise; otherwise the file holds the new text, whatever it
  held before.
\<close>

definition write_text :: "fs \<Rightarrow> path \<Rightarrow> content \<Rightarrow> error + fs" where
  "write_text fs p c =
     (if fs p = Some Dir then Inl (IsADirectoryError p)
      else if is_dir fs (butlast p) then Inr (fs(p \<mapsto> File c))
      else if path_exists fs (butlast p) then Inl (NotADirectoryError p)
      else Inl (FileNotFoundError p))"

definition read_text :: "fs \<Rightarrow> path \<Rightarrow> error + content" where
  "read_text fs p =
     (case fs p of
        None \<Rightarrow> Inl (FileNotFoundError p)
      | Some Dir \<Rightarrow> Inl (IsADirectoryError p)
      | Some (File c) \<Rightarrow> Inr c)"

definition json_dumps :: "json \<Rightarrow> content" where
  "json_dumps j = JsonText j"

definition json_loads :: "content \<Rightarrow> error + json" where
  "json_loads c = (case c of JsonText j \<Rightarrow> Inr j | Text t \<Rightarrow> Inl JSONDecodeError)"

section \<open>The taxonomy store\<close>

record 'd Store =
  root :: path
  meta_dir :: path
  meta_file :: path
  data :: 'd

text \<open>
  \<open>Store.load\<close>.  The value \<open>raw\<close> is whatever \<open>json.loads\<close> returned, so the
  normalisation \<open>if "cn" not in raw: raw["cn"] = {}\<close> is written for every JSON value:
  on an object it tests the keys and adds the key, on an array it tests the elements
  and on a string the substrings, and in both a missing \<open>"cn"\<close> makes the item
  assignment raise \<open>TypeError\<close>; on \<open>null\<close>, a boolean or a number the test itself raises
  \<open>TypeError\<close>.
\<close>

definition cn :: pystr where
  "cn = str ''cn''"

definition normalize :: "json \<Rightarrow> error + json" where
  "normalize raw =
     (case raw of
        JObj kvs \<Rightarrow> Inr (if map_of kvs cn = None then JObj (AList.update cn (JObj []) kvs) else raw)
      | JArr js \<Rightarrow> if JStr cn \<in> set js then Inr raw else Inl TypeError
      | JStr s \<Rightarrow> if sublist cn s then Inr raw else Inl TypeError
      | _ \<Rightarrow> Inl TypeError)"

definition load :: "path \<Rightarrow> fs \<Rightarrow> (error + json Store) \<times> fs" where
  "load rt fs =
     (let mdir = rt @ [str ''_meta''];
          mfile = mdir @ [str ''categories.json'']
      in case ensure_dir fs mdir of
           Inl e \<Rightarrow> (Inl e, fs)
         | Inr fs1 \<Rightarrow>
             (case (if path_exists fs1 mfile then
                      (case read_text fs1 mfile of
                         Inl e \<Rightarrow> Inl e
                       | Inr c \<Rightarrow>
                           (case json_loads c of Inl e \<Rightarrow> Inl e | Inr raw \<Rightarrow> Inr (raw, fs1)))
                    else
                      (case write_text fs1 mfile (json_dumps (JObj [(cn, JObj [])])) of
                         Inl e \<Rightarrow> Inl e
                       | Inr fs2 \<Rightarrow> Inr (JObj [(cn, JObj [])], fs2))) of
                Inl e \<Rightarrow> (Inl e, fs1)
              | Inr (raw, fs2) \<Rightarrow>
                  (case normalize raw of
                     Inl e \<Rightarrow> (Inl e, fs2)
                   | Inr raw' \<Rightarrow>
                       (Inr \<lparr>root = rt, meta_dir = mdir, meta_file = mfile, data = raw'\<rparr>, fs2))))"

text \<open>
  The methods are modelled on a store whose \<open>data\<close> has the declared type.
  \<open>typed\<close> reads a loaded store as one, when its data is a document.
\<close>

definition typed :: "json Store \<Rightarrow> doc Store option" where
  "typed s =
     map_option (\<lambda>d. \<lparr>root = root s, meta_dir = meta_dir s, meta_file = meta_file s, data = d\<rparr>)
       (doc_of_json (data s))"

definition save :: "doc Store \<Rightarrow> fs \<Rightarrow> error + fs" where
  "save s fs = write_text fs (meta_file s) (json_dumps (json_of_doc (data s)))"

definition countries :: "doc Store \<Rightarrow> pystr list" where
  "countries s = sort (map fst (data s))"

definition cat1_list :: "doc Store \<Rightarrow> pystr \<Rightarrow> pystr list" where
  "cat1_list s country =
     sort (map fst (case map_of (data s) country of None \<Rightarrow> [] | Some m \<Rightarrow> m))"

definition cat2_list :: "doc Store \<Rightarrow> pystr \<Rightarrow> pystr \<Rightarrow> pystr list" where
  "cat2_list s country cat1 =
     sort (case map_of (data s) country of
             None \<Rightarrow> []
           | Some m \<Rightarrow> (case map_of m cat1 of None \<Rightarrow> [] | Some l \<Rightarrow> l))"

definition add_country :: "doc Store \<Rightarrow> pystr \<Rightarrow> doc Store" where
  "add_country s country =
     (if map_of (data s) country = None then s\<lparr>data := AList.update country [] (data s)\<rparr>
      else s)"

text \<open>
  A subscript \<open>d[k]\<close> raises \<open>KeyError\<close> on a missing key; \<open>m.setdefault(k, v)\<close> adds
  the key only when it is missing.
\<close>

definition getitem :: "(pystr \<times> 'v) list \<Rightarrow> pystr \<Rightarrow> error + 'v" where
  "getitem d k = (case map_of d k of None \<Rightarrow> Inl (KeyError k) | Some v \<Rightarrow> Inr v)"

definition setdefault :: "(pystr \<times> 'v) list \<Rightarrow> pystr \<Rightarrow> 'v \<Rightarrow> (pystr \<times> 'v) list" where
  "setdefault m k v = (if map_of m k = None then AList.update k v m else m)"

definition add_cat1 :: "doc Store \<Rightarrow> pystr \<Rightarrow> pystr \<Rightarrow> error + doc Store" where
  "add_cat1 s country cat1 =
     (let s1 = add_country s country in
      case getitem (data s1) country of
        Inl e \<Rightarrow> Inl e
      | Inr m \<Rightarrow> Inr (s1\<lparr>data := AList.update country (setdefault m cat1 []) (data s1)\<rparr>))"

definition add_cat2 :: "doc Store \<Rightarrow> pystr \<Rightarrow> pystr \<Rightarrow> pystr \<Rightarrow> error + doc Store" where
  "add_cat2 s country cat1 cat2 =
     (case add_cat1 s country cat1 of
        Inl e \<Rightarrow> Inl e
      | Inr s1 \<Rightarrow>
          (case getitem (data s1) country of
             Inl e \<Rightarrow> Inl e
           | Inr m \<Rightarrow>
               (case getitem m cat1 of
                  Inl e \<Rightarrow> Inl e
                | Inr lst \<Rightarrow>
                    if cat2 \<notin> set lst then
                      Inr (s1\<lparr>data :=
                        AList.update country (AList.update cat1 (sort (lst @ [cat2])) m) (data s1)\<rparr>)
                    else Inr s1)))"

definition remove_cat2 :: "doc Store \<Rightarrow> pystr \<Rightarrow> pystr \<Rightarrow> pystr \<Rightarrow> bool \<times> doc Store" where
  "remove_cat2 s country cat1 cat2 =
     (case map_of (data s) country of
        None \<Rightarrow> (False, s)
      | Some m \<Rightarrow>
          (case map_of m cat1 of
             None \<Rightarrow> (False, s)
           | Some lst \<Rightarrow>
               if lst = [] then (False, s)
               else if cat2 \<in> set lst then
                 (True, s\<lparr>data :=
                    AList.update country (AList.update cat1 (remove1 cat2 lst) m) (data s)\<rparr>)
               else (False, s)))"

definition remove_cat1 :: "doc Store \<Rightarrow> pystr \<Rightarrow> pystr \<Rightarrow> bool \<times> doc Store" where
  "remove_cat1 s country cat1 =
     (case map_of (data s) country of
        None \<Rightarrow> (False, s)
      | Some m \<Rightarrow>
          if m = [] \<or> map_of m cat1 = None then (False, s)
          else (True, s\<lparr>data := AList.update country (AList.delete cat1 m) (data s)\<rparr>))"

text \<open>
  \<open>sync_dirs\<close>.  The three nested loops visit the paths \<open>root / c / cat1 / cat2\<close> in
  the order of \<open>sync_targets\<close>; the store does not change while they run.  An empty
  \<open>country\<close> is falsy, as \<open>None\<close> is, and selects every country.  The loop body
  creates the directories of a path that does not exist and records the path.  An
  exception of \<open>ensure_dir\<close> ends the loop with the filesystem as it is by then.
\<close>

definition truthy :: "pystr option \<Rightarrow> bool" where
  "truthy x = (case x of None \<Rightarrow> False | Some s \<Rightarrow> s \<noteq> [])"

definition sync_countries :: "doc Store \<Rightarrow> pystr option \<Rightarrow> pystr list" where
  "sync_countries s country =
     (case country of
        None \<Rightarrow> countries s
      | Some c \<Rightarrow> if c = [] then countries s else [c])"

definition sync_targets :: "doc Store \<Rightarrow> pystr option \<Rightarrow> path list" where
  "sync_targets s country =
     concat (map (\<lambda>c.
       concat (map (\<lambda>cat1.
         map (\<lambda>cat2. root s @ [c, cat1, cat2]) (cat2_list s c cat1))
         (cat1_list s c)))
       (sync_countries s country))"

fun sync_loop :: "path list \<Rightarrow> path list \<Rightarrow> fs \<Rightarrow> (error + path list) \<times> fs" where
  "sync_loop [] created fs = (Inr created, fs)"
| "sync_loop (p # ps) created fs =
     (if \<not> path_exists fs p then
        (case ensure_dir fs p of
           Inl e \<Rightarrow> (Inl e, fs)
         | Inr fs' \<Rightarrow> sync_loop ps (created @ [p]) fs')
      else sync_loop ps created fs)"

definition sync_dirs :: "doc Store \<Rightarrow> pystr option \<Rightarrow> fs \<Rightarrow> (error + path list) \<times> fs" where
  "sync_dirs s country fs = sync_loop (sync_targets s country) [] fs"

definition target_dir :: "doc Store \<Rightarrow> pystr \<Rightarrow> pystr \<Rightarrow> pystr \<Rightarrow> path" where
  "target_dir s country cat1 cat2 = root s @ [country, cat1, cat2]"

section \<open>The record stub\<close>

text \<open>
  \<open>str.splitlines()\<close>: the text is cut at every line boundary (LF, CR, CR LF, VT, FF,
  the separators U+001C..U+001E, NEL, LS and PS); a boundary at the very end opens no
  further line.
\<close>

definition is_linebreak :: "nat \<Rightarrow> bool" where
  "is_linebreak c = (c \<in> set [10, 11, 12, 13, 28, 29, 30, 133, 8232, 8233])"

fun splitlines_from :: "pystr \<Rightarrow> pystr \<Rightarrow> pystr list" where
  "splitlines_from cur [] = (if cur = [] then [] else [cur])"
| "splitlines_from cur [c] = (if is_linebreak c then [cur] else [cur @ [c]])"
| "splitlines_from cur (c # d # cs) =
     (if c = 13 \<and> d = 10 then cur # splitlines_from [] cs
      else if is_linebreak c then cur # splitlines_from [] (d # cs)
      else splitlines_from (cur @ [c]) (d # cs))"

definition splitlines :: "pystr \<Rightarrow> pystr list" where
  "splitlines text = splitlines_from [] text"

text \<open>\<open>sep.join(xs)\<close>.\<close>

fun join :: "pystr \<Rightarrow> pystr list \<Rightarrow> pystr" where
  "join sep [] = []"
| "join sep [x] = x"
| "join sep (x # y # ys) = x @ sep @ join sep (y # ys)"

definition yaml_escape_multiline :: "pystr \<Rightarrow> nat \<Rightarrow> pystr" where
  "yaml_escape_multiline text indent =
     (let pad = replicate indent 32;
          lines = (if splitlines text = [] then [[]] else splitlines text)
      in join [10] (map (\<lambda>line. pad @ line) lines))"

text \<open>
  \<open>render_yaml_template\<close>.  The generation time \<open>now_iso()\<close> is read from the clock; it
  is the parameter \<open>now\<close>.  \<open>product_name.replace('"', '\\"')\<close> puts a backslash (92)
  before every double quote (34).
\<close>

definition escape_quotes :: "pystr \<Rightarrow> pystr" where
  "escape_quotes s = concat (map (\<lambda>c. if c = 34 then [92, 34] else [c]) s)"

definition render_yaml_template ::
  "pystr \<Rightarrow> pystr \<Rightarrow> pystr \<Rightarrow> pystr \<Rightarrow> pystr \<Rightarrow> pystr \<Rightarrow> pystr" where
  "render_yaml_template now product_name description country cat1 cat2 =
     (let safe_name = escape_quotes product_name;
          header =
            [str ''# data-records.net product stub'',
             str ''# generated_at: '' @ now,
             str ''# path: '' @ country @ str ''/'' @ cat1 @ str ''/'' @ cat2 @ str ''/'' @
               slugify_filename product_name @ str ''.yaml'',
             [],
             str ''product:'',
             str ''  name: '' @ [34] @ safe_name @ [34],
             str ''  description: |'',
             yaml_escape_multiline description 4,
             []]
      in rstrip is_space (join [10] header) @ [10])"

section \<open>The commands\<close>

text \<open>
  A command takes the store and the filesystem and returns what it raised or returned,
  with the filesystem it leaves.  The store is mutated in place by the source, so a
  command that changes it returns it.  What a command prints is not modelled.
\<close>

definition then_save :: "doc Store \<Rightarrow> fs \<Rightarrow> (error + doc Store) \<times> fs" where
  "then_save s fs = (case save s fs of Inl e \<Rightarrow> (Inl e, fs) | Inr fs' \<Rightarrow> (Inr s, fs'))"

definition cmd_add ::
  "doc Store \<Rightarrow> pystr \<Rightarrow> pystr option \<Rightarrow> pystr option \<Rightarrow> fs \<Rightarrow> (error + doc Store) \<times> fs" where
  "cmd_add s country cat1 cat2 fs =
     (if \<not> truthy cat1 then then_save (add_country s country) fs
      else if \<not> truthy cat2 then
        (case add_cat1 s country (case cat1 of Some c1 \<Rightarrow> c1 | None \<Rightarrow> []) of
           Inl e \<Rightarrow> (Inl e, fs)
         | Inr s1 \<Rightarrow> then_save s1 fs)
      else
        (case add_cat2 s country (case cat1 of Some c1 \<Rightarrow> c1 | None \<Rightarrow> [])
                (case cat2 of Some c2 \<Rightarrow> c2 | None \<Rightarrow> []) of
           Inl e \<Rightarrow> (Inl e, fs)
         | Inr s1 \<Rightarrow> then_save s1 fs))"

definition cmd_rm ::
  "doc Store \<Rightarrow> pystr \<Rightarrow> pystr \<Rightarrow> pystr option \<Rightarrow> fs \<Rightarrow> (error + bool \<times> doc Store) \<times> fs" where
  "cmd_rm s country cat1 cat2 fs =
     (let (ok, s1) =
            (if truthy cat2 then remove_cat2 s country cat1 (case cat2 of Some c2 \<Rightarrow> c2 | None \<Rightarrow> [])
             else remove_cat1 s country cat1)
      in case save s1 fs of Inl e \<Rightarrow> (Inl e, fs) | Inr fs' \<Rightarrow> (Inr (ok, s1), fs'))"

definition cmd_sync :: "doc Store \<Rightarrow> pystr option \<Rightarrow> fs \<Rightarrow> (error + path list) \<times> fs" where
  "cmd_sync s country fs = sync_dirs s country fs"

text \<open>
  The messages \<open>cmd_gen\<close> exits with.  The apostrophe is the code point 39.  A path is
  printed with its components joined by \<open>/\<close>.
\<close>

definition msg_country :: "pystr \<Rightarrow> pystr" where
  "msg_country country =
     str ''country '' @ [39] @ country @ [39] @ str '' not in meta. Add it first.''"

definition msg_cat1 :: "pystr \<Rightarrow> pystr \<Rightarrow> pystr" where
  "msg_cat1 country cat1 =
     str ''cat1 '' @ [39] @ cat1 @ [39] @ str '' not in meta under '' @ country @
     str ''. Add it first.''"

definition msg_cat2 :: "pystr \<Rightarrow> pystr \<Rightarrow> pystr \<Rightarrow> pystr" where
  "msg_cat2 country cat1 cat2 =
     str ''cat2 '' @ [39] @ cat2 @ [39] @ str '' not in meta under '' @ country @ str ''/'' @
     cat1 @ str ''. Add it first.''"

definition path_str :: "path \<Rightarrow> pystr" where
  "path_str p = join (str ''/'') p"

definition msg_exists :: "path \<Rightarrow> pystr" where
  "msg_exists out_path =
     str ''File already exists: '' @ path_str out_path @ str '' (use --overwrite to replace)''"

definition out_path_of :: "doc Store \<Rightarrow> pystr \<Rightarrow> pystr \<Rightarrow> pystr \<Rightarrow> pystr \<Rightarrow> path" where
  "out_path_of s country cat1 cat2 name =
     target_dir s country cat1 cat2 @ [slugify_filename name @ str ''.yaml'']"

definition cmd_gen ::
  "pystr \<Rightarrow> doc Store \<Rightarrow> pystr \<Rightarrow> pystr \<Rightarrow> pystr \<Rightarrow> pystr \<Rightarrow> pystr \<Rightarrow> bool \<Rightarrow> fs \<Rightarrow>
     (error + unit) \<times> fs" where
  "cmd_gen now s country cat1 cat2 name desc overwrite fs =
     (if map_of (data s) country = None then (Inl (SystemExit (msg_country country)), fs)
      else
        case getitem (data s) country of
          Inl e \<Rightarrow> (Inl e, fs)
        | Inr m \<Rightarrow>
            if map_of m cat1 = None then (Inl (SystemExit (msg_cat1 country cat1)), fs)
            else if cat2 \<notin> set (case map_of m cat1 of None \<Rightarrow> [] | Some l \<Rightarrow> l) then
              (Inl (SystemExit (msg_cat2 country cat1 cat2)), fs)
            else
              (case sync_dirs s (Some country) fs of
                 (Inl e, fs1) \<Rightarrow> (Inl e, fs1)
               | (Inr created, fs1) \<Rightarrow>
                   (case ensure_dir fs1 (target_dir s country cat1 cat2) of
                      Inl e \<Rightarrow> (Inl e, fs1)
                    | Inr fs2 \<Rightarrow>
                        let out_path = out_path_of s country cat1 cat2 name in
                        if path_exists fs2 out_path \<and> \<not> overwrite then
                          (Inl (SystemExit (msg_exists out_path)), fs2)
                        else
                          (case write_text fs2 out_path
                                  (Text (render_yaml_template now name desc country cat1 cat2)) of
                             Inl e \<Rightarrow> (Inl e, fs2)
                           | Inr fs3 \<Rightarrow> (Inr (), fs3)))))"

text \<open>
  Sequences of store operations, as the commands issue them on a loaded store.  A
  sequence stops at the first exception.
\<close>

datatype store_op =
    AddCountry pystr
  | AddCat1 pystr pystr
  | AddCat2 pystr pystr pystr
  | RemoveCat1 pystr pystr
  | RemoveCat2 pystr pystr pystr
  | Save

fun apply_op :: "store_op \<Rightarrow> doc Store \<times> fs \<Rightarrow> error + doc Store \<times> fs" where
  "apply_op (AddCountry c) (s, fs) = Inr (add_country s c, fs)"
| "apply_op (AddCat1 c c1) (s, fs) =
     (case add_cat1 s c c1 of Inl e \<Rightarrow> Inl e | Inr s' \<Rightarrow> Inr (s', fs))"
| "apply_op (AddCat2 c c1 c2) (s, fs) =
     (case add_cat2 s c c1 c2 of Inl e \<Rightarrow> Inl e | Inr s' \<Rightarrow> Inr (s', fs))"
| "apply_op (RemoveCat1 c c1) (s, fs) = Inr (snd (remove_cat1 s c c1), fs)"
| "apply_op (RemoveCat2 c c1 c2) (s, fs) = Inr (snd (remove_cat2 s c c1 c2), fs)"
| "apply_op Save (s, fs) = (case save s fs of Inl e \<Rightarrow> Inl e | Inr fs' \<Rightarrow> Inr (s, fs'))"

fun run_ops :: "store_op list \<Rightarrow> doc Store \<times> fs \<Rightarrow> error + doc Store \<times> fs" where
  "run_ops [] st = Inr st"
| "run_ops (x # xs) st = (case apply_op x st of Inl e \<Rightarrow> Inl e | Inr st' \<Rightarrow> run_ops xs st')"

section \<open>The asset schema\<close>

text \<open>
  \<open>AssetSchema\<close> declares three required string fields.  \<open>role\<close> and \<open>uri\<close> carry no
  length bound, \<open>hash_sha256\<close> carries \<open>min_length=64\<close> and \<open>max_length=64\<close>, and the
  validator of \<open>uri\<close> raises unless it starts with \<open>https://assets.data-records.net/\<close>.
  An asset descriptor gives each field a string or leaves it out.  Validation collects
  the violations of all fields, in the order of the fields; one violation makes
  pydantic raise \<open>ValidationError\<close>.
\<close>

record asset_input =
  role_in :: "pystr option"
  hash_sha256_in :: "pystr option"
  uri_in :: "pystr option"

record AssetSchema =
  role :: pystr
  hash_sha256 :: pystr
  uri :: pystr

datatype violation =
    FieldRequired
  | MinLength nat
  | MaxLength nat
  | ValueError pystr

definition ASSETS_DOMAIN :: pystr where
  "ASSETS_DOMAIN = str ''assets.data-records.net''"

definition uri_prefix :: pystr where
  "uri_prefix = str ''https://'' @ ASSETS_DOMAIN @ str ''/''"

definition check_role :: "pystr option \<Rightarrow> violation list" where
  "check_role v = (case v of None \<Rightarrow> [FieldRequired] | Some r \<Rightarrow> [])"

definition check_hash :: "pystr option \<Rightarrow> violation list" where
  "check_hash v =
     (case v of
        None \<Rightarrow> [FieldRequired]
      | Some h \<Rightarrow>
          if length h < 64 then [MinLength 64]
          else if 64 < length h then [MaxLength 64]
          else [])"

definition validate_uri :: "pystr option \<Rightarrow> violation list" where
  "validate_uri v =
     (case v of
        None \<Rightarrow> [FieldRequired]
      | Some u \<Rightarrow>
          if \<not> prefix uri_prefix u then
            [ValueError (str ''Entropy Error: Asset URI must point to '' @ ASSETS_DOMAIN @
               str '' subgraph.'')]
          else [])"

definition validate_asset :: "asset_input \<Rightarrow> (pystr \<times> violation) list + AssetSchema" where
  "validate_asset a =
     (let errs =
            map (Pair (str ''role'')) (check_role (role_in a)) @
            map (Pair (str ''hash_sha256'')) (check_hash (hash_sha256_in a)) @
            map (Pair (str ''uri'')) (validate_uri (uri_in a))
      in if errs \<noteq> [] then Inl errs
         else
           case (role_in a, hash_sha256_in a, uri_in a) of
             (Some r, Some h, Some u) \<Rightarrow> Inr \<lparr>role = r, hash_sha256 = h, uri = u\<rparr>
           | _ \<Rightarrow> Inl errs)"

text \<open>
  The field \<open>assets: List[AssetSchema]\<close> of \<open>RecordSchema\<close>: every descriptor is
  validated, and the violations are collected with the index of their descriptor.
\<close>

fun validate_assets_from ::
  "nat \<Rightarrow> asset_input list \<Rightarrow> (nat \<times> pystr \<times> violation) list \<times> AssetSchema list" where
  "validate_assets_from i [] = ([], [])"
| "validate_assets_from i (a # as) =
     (let (errs, oks) = validate_assets_from (Suc i) as
      in case validate_asset a of
           Inl es \<Rightarrow> (map (Pair i) es @ errs, oks)
         | Inr v \<Rightarrow> (errs, v # oks))"

definition validate_assets ::
  "asset_input list \<Rightarrow> (nat \<times> pystr \<times> violation) list + AssetSchema list" where
  "validate_assets as =
     (case validate_assets_from 0 as of
        ([], oks) \<Rightarrow> Inr oks
      | (errs, oks) \<Rightarrow> Inl errs)"

text \<open>A hexadecimal digit: \<open>0-9\<close>, \<open>a-f\<close> or \<open>A-F\<close>.\<close>

definition is_hex :: "nat \<Rightarrow> bool" where
  "is_hex c = ((48 \<le> c \<and> c \<le> 57) \<or> (97 \<le> c \<and> c \<le> 102) \<or> (65 \<le> c \<and> c \<le> 70))"

text \<open>
  What \<open>AssetSchema\<close> checks of a descriptor: all three fields are there, the hash has
  64 characters and the URI starts with the asset prefix.
\<close>

definition asset_ok :: "asset_input \<Rightarrow> bool" where
  "asset_ok a =
     (role_in a \<noteq> None \<and>
      (case hash_sha256_in a of None \<Rightarrow> False | Some h \<Rightarrow> length h = 64) \<and>
      (case uri_in a of None \<Rightarrow> False | Some u \<Rightarrow> prefix uri_prefix u))"

section \<open>Predicates of the properties\<close>

text \<open>
  Membership in the taxonomy, as \<open>cmd_gen\<close> tests it level by level:
  \<open>country in store.data\<close>, \<open>cat1 in store.data[country]\<close> and
  \<open>cat2 in store.data[country].get(cat1, [])\<close>.
\<close>

definition has_country :: "doc Store \<Rightarrow> pystr \<Rightarrow> bool" where
  "has_country s country = (map_of (data s) country \<noteq> None)"

definition has_cat1 :: "doc Store \<Rightarrow> pystr \<Rightarrow> pystr \<Rightarrow> bool" where
  "has_cat1 s country cat1 =
     (case map_of (data s) country of None \<Rightarrow> False | Some m \<Rightarrow> map_of m cat1 \<noteq> None)"

definition has_cat2 :: "doc Store \<Rightarrow> pystr \<Rightarrow> pystr \<Rightarrow> pystr \<Rightarrow> bool" where
  "has_cat2 s country cat1 cat2 =
     (case map_of (data s) country of
        None \<Rightarrow> False
      | Some m \<Rightarrow> (case map_of m cat1 of None \<Rightarrow> False | Some l \<Rightarrow> cat2 \<in> set l))"

text \<open>
  The invariant of the secondary-category lists: every list of the document is sorted
  and has no duplicates.
\<close>

definition cat1s_ok :: "cat1s \<Rightarrow> bool" where
  "cat1s_ok m = (\<forall>kl\<in>set m. sorted (snd kl) \<and> distinct (snd kl))"

definition lists_ok :: "doc \<Rightarrow> bool" where
  "lists_ok d = (\<forall>cm\<in>set d. cat1s_ok (snd cm))"

text \<open>The location of the metadata document under a root.\<close>

definition meta_path :: "path \<Rightarrow> path" where
  "meta_path rt = rt @ [str ''_meta'', str ''categories.json'']"

text \<open>The store \<open>Store.load\<close> builds for a root, around the data it read.\<close>

definition loaded :: "path \<Rightarrow> json \<Rightarrow> json Store" where
  "loaded rt raw =
     \<lparr>root = rt, meta_dir = rt @ [str ''_meta''], meta_file = meta_path rt, data = raw\<rparr>"

section \<open>Example states\<close>


text \<open>A store under the root \<open>r\<close> that holds the country \<open>cn\<close> and no category.\<close>

definition ex_store_cn :: "doc Store" where
  "ex_store_cn =
     \<lparr>root = [str ''r''], meta_dir = [str ''r'', str ''_meta''],
      meta_file = [str ''r'', str ''_meta'', str ''categories.json''],
      data = [(str ''cn'', [])]\<rparr>"


text \<open>
  A filesystem whose metadata file holds the JSON object \<open>{"cn": 5}\<close>: valid JSON, but
  not a mapping from countries to categories.
\<close>

definition ex_fs_bad :: fs where
  "ex_fs_bad =
     [[str ''r''] \<mapsto> Dir, [str ''r'', str ''_meta''] \<mapsto> Dir,
      [str ''r'', str ''_meta'', str ''categories.json''] \<mapsto>
        File (JsonText (JObj [(str ''cn'', JInt 5)]))]"

section \<open>Properties of the sanitizer\<close>



lemma not_space_hyphen: "\<not> is_space hyphen"
  by (simp add: is_space_def hyphen_def)

lemma not_illegal_hyphen: "\<not> is_illegal hyphen"
  by (simp add: is_illegal_def is_reserved_def is_control_def hyphen_def)

lemma lstrip_id: "s = [] \<or> \<not> P (hd s) \<Longrightarrow> lstrip P s = s"
  by (simp add: lstrip_def dropWhile_eq_self_iff)

lemma rstrip_id: "s = [] \<or> \<not> P (last s) \<Longrightarrow> rstrip P s = s"
proof -
  assume a: "s = [] \<or> \<not> P (last s)"
  then have "dropWhile P (rev s) = rev s"
    by (cases "s = []") (simp_all add: dropWhile_eq_self_iff hd_rev)
  then show ?thesis by (simp add: rstrip_def)
qed

lemma strip_id: "s = [] \<or> (\<not> P (hd s) \<and> \<not> P (last s)) \<Longrightarrow> strip P s = s"
  by (auto simp: strip_def lstrip_id rstrip_id)

lemma lstrip_decomp: "\<exists>ps. s = ps @ lstrip P s"
  unfolding lstrip_def by (metis takeWhile_dropWhile_id)

lemma rstrip_decomp: "\<exists>ss. s = rstrip P s @ ss"
proof -
  obtain ps where "rev s = ps @ dropWhile P (rev s)"
    by (metis takeWhile_dropWhile_id)
  then have "s = rev (dropWhile P (rev s)) @ rev ps"
    by (metis rev_append rev_rev_ident)
  then show ?thesis unfolding rstrip_def by blast
qed

lemma strip_decomp: "\<exists>ps ss. s = ps @ strip P s @ ss"
proof -
  obtain ps where a: "s = ps @ lstrip P s" using lstrip_decomp by blast
  obtain ss where b: "lstrip P s = rstrip P (lstrip P s) @ ss" using rstrip_decomp by blast
  from a b have "s = ps @ strip P s @ ss" by (simp add: strip_def)
  then show ?thesis by blast
qed

lemma set_strip: "set (strip P s) \<subseteq> set s"
  using strip_decomp [of s P] by (metis Un_iff set_append subsetI)

lemma lstrip_hd: "lstrip P s \<noteq> [] \<Longrightarrow> \<not> P (hd (lstrip P s))"
  by (simp add: lstrip_def hd_dropWhile)

lemma rstrip_last: "rstrip P s \<noteq> [] \<Longrightarrow> \<not> P (last (rstrip P s))"
  by (simp add: rstrip_def last_rev hd_dropWhile)

lemma rstrip_hd: "rstrip P s \<noteq> [] \<Longrightarrow> hd (rstrip P s) = hd s"
  using rstrip_decomp [of s P] by (metis hd_append2)

lemma strip_ends:
  assumes "strip P s \<noteq> []"
  shows "\<not> P (hd (strip P s))" and "\<not> P (last (strip P s))"
proof -
  from assms have ne: "lstrip P s \<noteq> []"
    by (auto simp: strip_def rstrip_def)
  from assms show "\<not> P (last (strip P s))"
    unfolding strip_def by (rule rstrip_last)
  from assms have "hd (strip P s) = hd (lstrip P s)"
    unfolding strip_def by (rule rstrip_hd)
  with ne show "\<not> P (hd (strip P s))"
    by (simp add: lstrip_hd)
qed


lemma sub_whitespace_id: "\<forall>c\<in>set s. \<not> is_space c \<Longrightarrow> sub_whitespace s = s"
  by (induction s) simp_all

lemma sub_whitespace_no_space: "c \<in> set (sub_whitespace s) \<Longrightarrow> \<not> is_space c"
proof (induction s rule: sub_whitespace.induct)
  case 1
  then show ?case by simp
next
  case (2 d ds)
  then show ?case
    by (auto simp: not_space_hyphen split: if_splits)
qed

lemma remove_illegal_id: "\<forall>c\<in>set s. \<not> is_illegal c \<Longrightarrow> remove_illegal s = s"
  by (simp add: remove_illegal_def)

lemma set_sub_separators: "set (sub_separators s) \<subseteq> insert hyphen (set s)"
proof (induction s rule: sub_separators.induct)
  case (3 c d cs)
  show ?case
  proof (cases "is_sep c \<and> is_sep d")
    case True
    with 3 have "set (sub_separators (dropWhile is_sep cs)) \<subseteq> insert hyphen (set (dropWhile is_sep cs))"
      by simp
    moreover have "set (dropWhile is_sep cs) \<subseteq> set cs"
      by (auto dest: set_dropWhileD)
    ultimately show ?thesis using True by auto
  next
    case False
    with 3 show ?thesis by auto
  qed
qed simp_all

lemma sub_separators_id: "\<not> sep_run s \<Longrightarrow> sub_separators s = s"
  by (induction s rule: sub_separators.induct) auto

lemma sub_separators_hd:
  "s \<noteq> [] \<Longrightarrow> \<not> is_sep (hd s) \<Longrightarrow> sub_separators s \<noteq> [] \<and> hd (sub_separators s) = hd s"
  by (cases s rule: sub_separators.cases) auto

lemma dropWhile_sep_hd: "dropWhile is_sep cs \<noteq> [] \<Longrightarrow> \<not> is_sep (hd (dropWhile is_sep cs))"
  by (simp add: hd_dropWhile)

lemma sep_run_Cons:
  "sep_run (c # s) = (s \<noteq> [] \<and> ((is_sep c \<and> is_sep (hd s)) \<or> sep_run s))"
  by (cases s) auto

lemma sub_separators_no_run: "\<not> sep_run (sub_separators s)"
proof (induction s rule: sub_separators.induct)
  case (3 c d cs)
  show ?case
  proof (cases "is_sep c \<and> is_sep d")
    case True
    let ?r = "dropWhile is_sep cs"
    from True 3 have ih: "\<not> sep_run (sub_separators ?r)" by simp
    have "sub_separators ?r = [] \<or> \<not> is_sep (hd (sub_separators ?r))"
    proof (cases "?r = []")
      case True
      then have "sub_separators ?r = []" by (simp only: sub_separators.simps)
      then show ?thesis by blast
    next
      case False
      then have "\<not> is_sep (hd ?r)" by (rule dropWhile_sep_hd)
      with False show ?thesis using sub_separators_hd [of ?r] by simp
    qed
    with ih have "\<not> sep_run (hyphen # sub_separators ?r)"
      by (auto simp: sep_run_Cons)
    with True show ?thesis by simp
  next
    case False
    with 3 have ih: "\<not> sep_run (sub_separators (d # cs))" by simp
    have "\<not> (is_sep c \<and> is_sep (hd (sub_separators (d # cs))))"
    proof
      assume a: "is_sep c \<and> is_sep (hd (sub_separators (d # cs)))"
      with False have "\<not> is_sep d" by simp
      then have "hd (sub_separators (d # cs)) = d"
        using sub_separators_hd [of "d # cs"] by simp
      with a \<open>\<not> is_sep d\<close> show False by simp
    qed
    with ih have "\<not> sep_run (c # sub_separators (d # cs))"
      by (auto simp: sep_run_Cons)
    moreover from False have "sub_separators (c # d # cs) = c # sub_separators (d # cs)"
      by auto
    ultimately show ?thesis by simp
  qed
qed simp_all

lemma sep_run_append: "sep_run xs \<or> sep_run ys \<Longrightarrow> sep_run (xs @ ys)"
  by (induction xs) (auto simp: sep_run_Cons hd_append)

lemma sep_run_strip: "\<not> sep_run s \<Longrightarrow> \<not> sep_run (strip P s)"
proof -
  assume a: "\<not> sep_run s"
  obtain ps ss where "s = ps @ strip P s @ ss" using strip_decomp by blast
  then show ?thesis using a sep_run_append by metis
qed


lemma clean_fixed: "clean s \<Longrightarrow> slugify_filename s = s"
proof -
  assume c: "clean s"
  then have 1: "strip is_space s = s"
    by (intro strip_id) (auto simp: clean_def)
  from c have 2: "sub_whitespace s = s"
    by (intro sub_whitespace_id) (simp add: clean_def)
  from c have 3: "remove_illegal s = s"
    by (intro remove_illegal_id) (simp add: clean_def)
  from c have 4: "sub_separators s = s"
    by (intro sub_separators_id) (simp add: clean_def)
  from c have 5: "strip is_trim s = s"
    by (intro strip_id) (simp add: clean_def)
  from c have "s \<noteq> []" by (simp add: clean_def)
  then show ?thesis
    by (simp add: slugify_filename_def 1 2 3 4 5)
qed

lemma clean_unnamed_product: "clean unnamed_product"
  by (simp add: clean_def unnamed_product_def str_def is_space_def is_illegal_def
      is_reserved_def is_control_def is_trim_def is_sep_def)

lemma clean_core:
  assumes "strip is_trim (sub_separators (remove_illegal (sub_whitespace s))) \<noteq> []"
  shows "clean (strip is_trim (sub_separators (remove_illegal (sub_whitespace s))))"
proof -
  let ?a = "remove_illegal (sub_whitespace s)"
  let ?b = "sub_separators ?a"
  let ?r = "strip is_trim ?b"
  have a: "\<forall>c\<in>set ?a. \<not> is_space c \<and> \<not> is_illegal c"
    by (auto simp: remove_illegal_def dest: sub_whitespace_no_space)
  have "set ?b \<subseteq> insert hyphen (set ?a)"
    by (rule set_sub_separators)
  with a have b: "\<forall>c\<in>set ?b. \<not> is_space c \<and> \<not> is_illegal c"
    using not_space_hyphen not_illegal_hyphen by blast
  have "set ?r \<subseteq> set ?b" by (rule set_strip)
  with b have r: "\<forall>c\<in>set ?r. \<not> is_space c \<and> \<not> is_illegal c" by blast
  have run: "\<not> sep_run ?r"
    by (intro sep_run_strip sub_separators_no_run)
  from assms have "\<not> is_trim (hd ?r)" "\<not> is_trim (last ?r)"
    by (rule strip_ends)+
  with assms r run show ?thesis by (simp add: clean_def)
qed

lemma clean_slugify: "clean (slugify_filename x)"
  using clean_core clean_unnamed_product
  by (simp add: slugify_filename_def Let_def)




text \<open>
  Claim C7.  \<open>slugify_filename\<close> is idempotent: sanitizing a sanitized name changes
  nothing.
\<close>

theorem slugify_filename_idempotent:
  "slugify_filename (slugify_filename x) = slugify_filename x"
  by (rule clean_fixed) (rule clean_slugify)

section \<open>Properties of the filesystem operations\<close>


lemma mkdir_parents_target:
  "mkdir_parents fs rp = Inr fs' \<Longrightarrow> rp \<noteq> [] \<Longrightarrow> fs' (rev rp) = Some Dir"
  by (cases rp) (auto split: option.splits node.splits if_splits sum.splits)

lemma mkdir_parents_changes:
  "mkdir_parents fs rp = Inr fs' \<Longrightarrow> fs' q \<noteq> fs q \<Longrightarrow>
     prefix q (rev rp) \<and> fs q = None \<and> fs' q = Some Dir"
proof (induction rp arbitrary: fs')
  case Nil
  then show ?case by simp
next
  case (Cons c rparent)
  show ?case
  proof (cases "fs (rev (c # rparent))")
    case None
    show ?thesis
    proof (cases "is_dir fs (rev rparent)")
      case True
      with None Cons.prems show ?thesis
        by (auto split: if_splits)
    next
      case False
      with None Cons.prems obtain fs1 where
        r: "mkdir_parents fs rparent = Inr fs1" and
        f: "fs' = fs1(rev (c # rparent) \<mapsto> Dir)"
        by (auto split: if_splits sum.splits)
      show ?thesis
      proof (cases "q = rev (c # rparent)")
        case True
        with None f show ?thesis by simp
      next
        case False
        with f Cons.prems have "fs1 q \<noteq> fs q" by simp
        with Cons.IH [OF r] have "prefix q (rev rparent) \<and> fs q = None \<and> fs1 q = Some Dir"
          by simp
        then have "prefix q (rev (c # rparent))" by (auto simp: prefix_def)
        with f False \<open>prefix q (rev rparent) \<and> fs q = None \<and> fs1 q = Some Dir\<close>
        show ?thesis by simp
      qed
    qed
  next
    case (Some n)
    with Cons.prems show ?thesis
      by (cases n) auto
  qed
qed



lemma ensure_dir_target:
  "ensure_dir fs p = Inr fs' \<Longrightarrow> p \<noteq> [] \<Longrightarrow> fs' p = Some Dir"
  unfolding ensure_dir_def using mkdir_parents_target [of fs "rev p" fs'] by simp

lemma ensure_dir_changes:
  "ensure_dir fs p = Inr fs' \<Longrightarrow> fs' q \<noteq> fs q \<Longrightarrow>
     prefix q p \<and> fs q = None \<and> fs' q = Some Dir"
  unfolding ensure_dir_def using mkdir_parents_changes [of fs "rev p" fs' q] by simp

lemma ensure_dir_existing: "fs p = Some Dir \<Longrightarrow> ensure_dir fs p = Inr fs"
  unfolding ensure_dir_def by (cases "rev p") auto








section \<open>Properties of the asset schema\<close>

lemma validate_asset_iff: "(\<exists>v. validate_asset a = Inr v) = asset_ok a"
  by (auto simp: validate_asset_def asset_ok_def check_role_def check_hash_def validate_uri_def
      split: option.splits)

lemma validate_asset_Inr:
  "validate_asset a = Inr v \<Longrightarrow>
     role_in a = Some (role v) \<and> hash_sha256_in a = Some (hash_sha256 v) \<and> uri_in a = Some (uri v)"
  by (auto simp: validate_asset_def Let_def split: option.splits if_splits)

lemma validate_assets_from_errs:
  "fst (validate_assets_from i as) = [] \<longleftrightarrow> (\<forall>a\<in>set as. asset_ok a)"
proof (induction as arbitrary: i)
  case Nil
  then show ?case by simp
next
  case (Cons a as)
  show ?case
  proof (cases "validate_asset a")
    case (Inl es)
    then have "\<not> asset_ok a" using validate_asset_iff [of a] by auto
    moreover from Inl have "es \<noteq> []"
      by (auto simp: validate_asset_def Let_def check_role_def check_hash_def validate_uri_def
          split: if_splits option.splits)
    ultimately show ?thesis using Inl by (simp add: split_beta)
  next
    case (Inr v)
    then have "asset_ok a" using validate_asset_iff [of a] by auto
    then show ?thesis using Inr Cons.IH [of "Suc i"] by (simp add: split_beta)
  qed
qed

lemma validate_assets_iff:
  "(\<exists>vs. validate_assets as = Inr vs) = (\<forall>a\<in>set as. asset_ok a)"
proof -
  have "(\<exists>vs. validate_assets as = Inr vs) = (fst (validate_assets_from 0 as) = [])"
    by (auto simp: validate_assets_def split: prod.splits list.splits)
  then show ?thesis by (simp add: validate_assets_from_errs)
qed

text \<open>
  Claim C1, as the code has it.  An asset descriptor is accepted exactly when it gives a
  role (any string, the empty one included), a hash of exactly 64 characters (any
  characters) and a URI that starts with \<open>https://assets.data-records.net/\<close>; the
  accepted descriptor is returned as it came.  A list of descriptors passes exactly when
  every descriptor does.
\<close>

theorem validate_asset_accepts:
  "((\<exists>v. validate_asset a = Inr v) =
      (role_in a \<noteq> None \<and> (\<exists>h. hash_sha256_in a = Some h \<and> length h = 64) \<and>
       (\<exists>u. uri_in a = Some u \<and> prefix uri_prefix u))) \<and>
   (\<forall>v. validate_asset a = Inr v \<longrightarrow>
      role_in a = Some (role v) \<and> hash_sha256_in a = Some (hash_sha256 v) \<and>
      uri_in a = Some (uri v)) \<and>
   ((\<exists>vs. validate_assets as = Inr vs) = (\<forall>x\<in>set as. asset_ok x))"
proof -
  have "(\<exists>v. validate_asset a = Inr v) =
      (role_in a \<noteq> None \<and> (\<exists>h. hash_sha256_in a = Some h \<and> length h = 64) \<and>
       (\<exists>u. uri_in a = Some u \<and> prefix uri_prefix u))"
    unfolding validate_asset_iff by (auto simp: asset_ok_def split: option.splits)
  then show ?thesis
    using validate_asset_Inr validate_assets_iff by blast
qed

theorem validate_asset_accepts_witness:
  "(\<exists>v. validate_asset
      \<lparr>role_in = Some (str ''front''), hash_sha256_in = Some (replicate 64 97),
       uri_in = Some (str ''https://assets.data-records.net/x'')\<rparr> = Inr v) \<and>
   (\<exists>vs. validate_assets
      [\<lparr>role_in = Some (str ''front''), hash_sha256_in = Some (replicate 64 97),
        uri_in = Some (str ''https://assets.data-records.net/x'')\<rparr>] = Inr vs) \<and>
   \<not> (\<exists>vs. validate_assets
      [\<lparr>role_in = Some (str ''front''), hash_sha256_in = Some (replicate 64 97),
        uri_in = Some (str ''https://evil.example/x'')\<rparr>] = Inr vs)"
  using validate_asset_accepts
    [of "\<lparr>role_in = Some (str ''front''), hash_sha256_in = Some (replicate 64 97),
          uri_in = Some (str ''https://assets.data-records.net/x'')\<rparr>"
        "[\<lparr>role_in = Some (str ''front''), hash_sha256_in = Some (replicate 64 97),
          uri_in = Some (str ''https://assets.data-records.net/x'')\<rparr>]"]
    validate_asset_accepts
    [of "\<lparr>role_in = Some (str ''front''), hash_sha256_in = Some (replicate 64 97),
          uri_in = Some (str ''https://evil.example/x'')\<rparr>"
        "[\<lparr>role_in = Some (str ''front''), hash_sha256_in = Some (replicate 64 97),
          uri_in = Some (str ''https://evil.example/x'')\<rparr>]"]
  by (simp add: asset_ok_def uri_prefix_def ASSETS_DOMAIN_def str_def)

text \<open>
  The claim as stated fails: a descriptor with the empty role and a hash of 64 letters
  \<open>z\<close>, none of them a hexadecimal digit, is accepted.
\<close>

theorem validate_asset_counterexample:
  "validate_asset
     \<lparr>role_in = Some [], hash_sha256_in = Some (replicate 64 122),
      uri_in = Some (str ''https://assets.data-records.net/x'')\<rparr> =
   Inr \<lparr>role = [], hash_sha256 = replicate 64 122,
        uri = str ''https://assets.data-records.net/x''\<rparr> \<and>
   \<not> list_all is_hex (replicate 64 122)"
  by (simp add: validate_asset_def check_role_def check_hash_def validate_uri_def uri_prefix_def
      ASSETS_DOMAIN_def str_def is_hex_def list_all_iff)

section \<open>Directory synchronisation\<close>










section \<open>Record generation\<close>


lemma cmd_gen_no_country:
  "\<not> has_country s country \<Longrightarrow>
     cmd_gen now s country cat1 cat2 name desc overwrite fs =
       (Inl (SystemExit (msg_country country)), fs)"
  by (simp add: cmd_gen_def has_country_def)

lemma cmd_gen_no_cat1:
  "has_country s country \<Longrightarrow> \<not> has_cat1 s country cat1 \<Longrightarrow>
     cmd_gen now s country cat1 cat2 name desc overwrite fs =
       (Inl (SystemExit (msg_cat1 country cat1)), fs)"
  by (auto simp: cmd_gen_def has_country_def has_cat1_def getitem_def)

lemma cmd_gen_no_cat2:
  "has_country s country \<Longrightarrow> has_cat1 s country cat1 \<Longrightarrow> \<not> has_cat2 s country cat1 cat2 \<Longrightarrow>
     cmd_gen now s country cat1 cat2 name desc overwrite fs =
       (Inl (SystemExit (msg_cat2 country cat1 cat2)), fs)"
  by (auto simp: cmd_gen_def has_country_def has_cat1_def has_cat2_def getitem_def)

text \<open>
  Claim C4.  When the country, the primary category or the secondary category of a
  generation request is not in the store, \<open>cmd_gen\<close> exits with the message of the
  first level that is missing (the message begins with \<open>country\<close>, \<open>cat1\<close> or \<open>cat2\<close>)
  and returns the filesystem it was given: nothing is written.  \<open>cmd_gen\<close> reads the
  store and never changes it, so no taxonomy entry is added.
\<close>

theorem cmd_gen_missing_taxonomy:
  assumes "\<not> has_country s country \<or> \<not> has_cat1 s country cat1 \<or> \<not> has_cat2 s country cat1 cat2"
  shows "cmd_gen now s country cat1 cat2 name desc overwrite fs =
           (Inl (SystemExit
              (if \<not> has_country s country then msg_country country
               else if \<not> has_cat1 s country cat1 then msg_cat1 country cat1
               else msg_cat2 country cat1 cat2)), fs) \<and>
         prefix (str ''country '') (msg_country country) \<and>
         prefix (str ''cat1 '') (msg_cat1 country cat1) \<and>
         prefix (str ''cat2 '') (msg_cat2 country cat1 cat2)"
proof -
  have "prefix (str ''country '') (msg_country country)"
    "prefix (str ''cat1 '') (msg_cat1 country cat1)"
    "prefix (str ''cat2 '') (msg_cat2 country cat1 cat2)"
    by (simp_all add: msg_country_def msg_cat1_def msg_cat2_def)
  moreover have "cmd_gen now s country cat1 cat2 name desc overwrite fs =
           (Inl (SystemExit
              (if \<not> has_country s country then msg_country country
               else if \<not> has_cat1 s country cat1 then msg_cat1 country cat1
               else msg_cat2 country cat1 cat2)), fs)"
    using assms cmd_gen_no_country cmd_gen_no_cat1 cmd_gen_no_cat2 by auto
  ultimately show ?thesis by blast
qed

theorem cmd_gen_missing_taxonomy_witness:
  "\<not> has_cat1 ex_store_cn (str ''cn'') (str ''food'') \<and>
   cmd_gen (str ''t'') ex_store_cn (str ''cn'') (str ''food'') (str ''snacks'') (str ''x'') []
     False Map.empty =
     (Inl (SystemExit (msg_cat1 (str ''cn'') (str ''food''))), Map.empty)"
  using cmd_gen_missing_taxonomy [of ex_store_cn "str ''cn''" "str ''food''" "str ''snacks''"
      "str ''t''" "str ''x''" "[]" False Map.empty]
  by (simp add: has_country_def has_cat1_def has_cat2_def ex_store_cn_def str_def)











section \<open>Loading the store\<close>


lemma meta_path_not_prefix: "\<not> prefix (meta_path rt) (rt @ [str ''_meta''])"
  by (auto simp: meta_path_def prefix_def)

lemma ensure_meta_dir:
  assumes "ensure_dir fs (rt @ [str ''_meta'']) = Inr fs1"
  shows "fs1 (meta_path rt) = fs (meta_path rt)" and "fs1 (rt @ [str ''_meta'']) = Some Dir"
proof -
  show "fs1 (meta_path rt) = fs (meta_path rt)"
    using ensure_dir_changes [OF assms, of "meta_path rt"] meta_path_not_prefix by blast
  show "fs1 (rt @ [str ''_meta'']) = Some Dir"
    using assms by (rule ensure_dir_target) simp
qed

lemma meta_path_butlast: "butlast (meta_path rt) = rt @ [str ''_meta'']"
  by (simp add: meta_path_def butlast_append)

lemma meta_path_eq: "rt @ [str ''_meta''] @ [str ''categories.json''] = meta_path rt"
  by (simp add: meta_path_def)

lemma load_absent:
  assumes e: "ensure_dir fs (rt @ [str ''_meta'']) = Inr fs1" and a: "fs (meta_path rt) = None"
  shows "load rt fs =
     (Inr (loaded rt (JObj [(cn, JObj [])])),
      fs1(meta_path rt \<mapsto> File (JsonText (JObj [(cn, JObj [])]))))"
proof -
  from ensure_meta_dir [OF e] a have 1: "fs1 (meta_path rt) = None"
    and 2: "fs1 (rt @ [str ''_meta'']) = Some Dir" by simp_all
  from 1 2 have "write_text fs1 (meta_path rt) (json_dumps (JObj [(cn, JObj [])])) =
      Inr (fs1(meta_path rt \<mapsto> File (JsonText (JObj [(cn, JObj [])]))))"
    by (simp add: write_text_def meta_path_butlast is_dir_def json_dumps_def)
  with e 1 show ?thesis
    by (simp add: load_def Let_def meta_path_def path_exists_def normalize_def loaded_def)
qed

lemma load_json:
  assumes e: "ensure_dir fs (rt @ [str ''_meta'']) = Inr fs1"
    and a: "fs (meta_path rt) = Some (File (JsonText j))"
  shows "load rt fs =
     (case normalize j of Inl err \<Rightarrow> (Inl err, fs1) | Inr raw \<Rightarrow> (Inr (loaded rt raw), fs1))"
proof -
  from ensure_meta_dir [OF e] a have 1: "fs1 (meta_path rt) = Some (File (JsonText j))"
    by simp
  with e show ?thesis
    by (simp add: load_def Let_def meta_path_def path_exists_def read_text_def json_loads_def
        loaded_def split: sum.splits)
qed

lemma load_text:
  assumes e: "ensure_dir fs (rt @ [str ''_meta'']) = Inr fs1"
    and a: "fs (meta_path rt) = Some (File (Text t))"
  shows "load rt fs = (Inl JSONDecodeError, fs1)"
proof -
  from ensure_meta_dir [OF e] a have 1: "fs1 (meta_path rt) = Some (File (Text t))"
    by simp
  with e show ?thesis
    by (simp add: load_def Let_def meta_path_def path_exists_def read_text_def json_loads_def)
qed

text \<open>
  Claim C5, as the code has it.  \<open>load\<close> first makes the directory \<open>_meta\<close> under the
  root (and fails with the error of \<open>mkdir\<close> when it cannot).  Then it looks at the fixed
  location \<open>_meta/categories.json\<close>.  When nothing is there, it builds the default
  document \<open>{"cn": {}}\<close>, writes it to that location at once and returns a store around
  it.  When the file holds text that is not JSON, \<open>load\<close> fails with the decoder's
  error.  When it holds a JSON object, \<open>load\<close> returns a store around that object,
  with the key \<open>cn\<close> added when it is missing, whatever the values of the object are:
  the structure of the mapping is not checked.  An array or a string is returned as the
  store's data when it contains \<open>"cn"\<close> and makes \<open>load\<close> fail with \<open>TypeError\<close>
  otherwise; \<open>null\<close>, a boolean or a number always makes it fail with \<open>TypeError\<close>.
\<close>

theorem load_cases:
  assumes e: "ensure_dir fs (rt @ [str ''_meta'']) = Inr fs1"
  shows
   "(fs (meta_path rt) = None \<longrightarrow>
       load rt fs =
         (Inr (loaded rt (JObj [(cn, JObj [])])),
          fs1(meta_path rt \<mapsto> File (JsonText (JObj [(cn, JObj [])]))))) \<and>
    (\<forall>t. fs (meta_path rt) = Some (File (Text t)) \<longrightarrow>
       load rt fs = (Inl JSONDecodeError, fs1)) \<and>
    (\<forall>kvs. fs (meta_path rt) = Some (File (JsonText (JObj kvs))) \<longrightarrow>
       load rt fs =
         (Inr (loaded rt
            (if map_of kvs cn = None then JObj (AList.update cn (JObj []) kvs) else JObj kvs)),
          fs1)) \<and>
    (\<forall>js. fs (meta_path rt) = Some (File (JsonText (JArr js))) \<longrightarrow>
       load rt fs =
         (if JStr cn \<in> set js then (Inr (loaded rt (JArr js)), fs1) else (Inl TypeError, fs1))) \<and>
    (\<forall>t. fs (meta_path rt) = Some (File (JsonText (JStr t))) \<longrightarrow>
       load rt fs =
         (if sublist cn t then (Inr (loaded rt (JStr t)), fs1) else (Inl TypeError, fs1))) \<and>
    (\<forall>j. fs (meta_path rt) = Some (File (JsonText j)) \<and>
         (j = JNull \<or> (\<exists>b. j = JBool b) \<or> (\<exists>i. j = JInt i) \<or> (\<exists>x. j = JFloat x)) \<longrightarrow>
       load rt fs = (Inl TypeError, fs1))"
  using load_absent [OF e] load_text [OF e] load_json [OF e]
  by (auto simp: normalize_def)

lemma ensure_ex_fs_bad: "ensure_dir ex_fs_bad ([str ''r''] @ [str ''_meta'']) = Inr ex_fs_bad"
  by (rule ensure_dir_existing) (simp add: ex_fs_bad_def)

text \<open>
  The claim as stated fails: the metadata file \<open>{"cn": 5}\<close> is not a mapping from
  countries to categories, and \<open>load\<close> returns a store around it.
\<close>

theorem load_counterexample:
  "load [str ''r''] ex_fs_bad = (Inr (loaded [str ''r''] (JObj [(str ''cn'', JInt 5)])), ex_fs_bad) \<and>
   doc_of_json (JObj [(str ''cn'', JInt 5)]) = None"
proof -
  have "ex_fs_bad (meta_path [str ''r'']) = Some (File (JsonText (JObj [(str ''cn'', JInt 5)])))"
    by (simp add: ex_fs_bad_def meta_path_def)
  from load_json [OF ensure_ex_fs_bad this]
  show ?thesis by (simp add: normalize_def cn_def)
qed

theorem load_cases_witness:
  "load [str ''r''] Map.empty =
     (Inr (loaded [str ''r''] (JObj [(cn, JObj [])])),
      [[str ''r''] \<mapsto> Dir, [str ''r'', str ''_meta''] \<mapsto> Dir,
       meta_path [str ''r''] \<mapsto> File (JsonText (JObj [(cn, JObj [])]))])"
proof -
  have e: "ensure_dir Map.empty ([str ''r''] @ [str ''_meta'']) =
      Inr [[str ''r''] \<mapsto> Dir, [str ''r'', str ''_meta''] \<mapsto> Dir]"
    by (simp add: ensure_dir_def is_dir_def path_exists_def)
  from load_cases [OF e] show ?thesis by simp
qed

end
